theory Spec2Isabelle
  imports Complex_Main
begin

section \<open>JavaScript values\<close>

text \<open>
  The values that flow through the tool-call pipeline: arguments read by
  \<^verbatim>\<open>parseToolCall\<close>, passed to the tool functions of \<^verbatim>\<open>tools.js\<close> and echoed by
  \<^verbatim>\<open>executeTool\<close>. Numbers are modelled by exact rationals plus the two infinities and
  NaN; a JavaScript number is an IEEE double, which agrees with the rational wherever the
  double is exact (every integer below \<open>2^53\<close> in absolute value).
\<close>

datatype js_value =
    VUndefined
  | VNull
  | VBool bool
  | VNum rat
  | VPosInf
  | VNegInf
  | VNaN
  | VStr string
  | VList "js_value list"
  | VObj "(string \<times> js_value) list"

text \<open>\<^verbatim>\<open>if (v)\<close>: JavaScript truthiness.\<close>

fun truthy :: "js_value \<Rightarrow> bool" where
  "truthy VUndefined = False"
| "truthy VNull = False"
| "truthy (VBool b) = b"
| "truthy (VNum r) = (r \<noteq> 0)"
| "truthy VPosInf = True"
| "truthy VNegInf = True"
| "truthy VNaN = False"
| "truthy (VStr s) = (s \<noteq> [])"
| "truthy (VList xs) = True"
| "truthy (VObj kvs) = True"

text \<open>\<^verbatim>\<open>Array.isArray(v)\<close>.\<close>

fun isArray :: "js_value \<Rightarrow> bool" where
  "isArray (VList xs) = True"
| "isArray v = False"

text \<open>A parameter declared \<^verbatim>\<open>p = null\<close>: a missing (undefined) argument becomes null.\<close>

definition default_null :: "js_value \<Rightarrow> js_value" where
  "default_null v = (if v = VUndefined then VNull else v)"


section \<open>Characters and strings\<close>

text \<open>
  A text is a \<open>string\<close>: a list of 8-bit characters, read as the code units U+0000 to
  U+00FF of a JavaScript string. The character classes are those of the host language's
  regular expressions on this range: \<^verbatim>\<open>\d\<close> is \<^verbatim>\<open>[0-9]\<close>, \<^verbatim>\<open>\w\<close> is \<^verbatim>\<open>[A-Za-z0-9_]\<close>,
  \<^verbatim>\<open>\s\<close> is tab, line feed, vertical tab, form feed, carriage return, space and U+00A0;
  \<^verbatim>\<open>.\<close> excludes line feed and carriage return.
\<close>

definition is_digit :: "char \<Rightarrow> bool" where
  "is_digit c = (c \<in> set ''0123456789'')"

definition is_word :: "char \<Rightarrow> bool" where
  "is_word c = (c \<in> set ''abcdefghijklmnopqrstuvwxyzABCDEFGHIJKLMNOPQRSTUVWXYZ0123456789_'')"

definition is_space :: "char \<Rightarrow> bool" where
  "is_space c = (c \<in> set [CHR 0x09, CHR 0x0A, CHR 0x0B, CHR 0x0C, CHR 0x0D, CHR '' '', CHR 0xA0])"

definition is_line_terminator :: "char \<Rightarrow> bool" where
  "is_line_terminator c = (c \<in> set [CHR 0x0A, CHR 0x0D])"

text \<open>
  Case mapping on the range: the letters a to z and the accented letters U+00E0 to U+00FE
  (without the division sign U+00F7) correspond to the capitals 32 places before them.
  \<open>toUpper\<close> is the canonicalisation a case-insensitive pattern compares characters
  under, \<open>toLower\<close> is the character map of \<^verbatim>\<open>String.prototype.toLowerCase\<close>.
\<close>

definition lower_letters :: string where
  "lower_letters = ''abcdefghijklmnopqrstuvwxyz'' @
     [CHR 0xE0, CHR 0xE1, CHR 0xE2, CHR 0xE3, CHR 0xE4, CHR 0xE5, CHR 0xE6, CHR 0xE7, CHR 0xE8, CHR 0xE9, CHR 0xEA, CHR 0xEB, CHR 0xEC, CHR 0xED, CHR 0xEE, CHR 0xEF, CHR 0xF0, CHR 0xF1, CHR 0xF2, CHR 0xF3, CHR 0xF4, CHR 0xF5, CHR 0xF6, CHR 0xF8, CHR 0xF9, CHR 0xFA, CHR 0xFB, CHR 0xFC, CHR 0xFD, CHR 0xFE]"

definition upper_letters :: string where
  "upper_letters = ''ABCDEFGHIJKLMNOPQRSTUVWXYZ'' @
     [CHR 0xC0, CHR 0xC1, CHR 0xC2, CHR 0xC3, CHR 0xC4, CHR 0xC5, CHR 0xC6, CHR 0xC7, CHR 0xC8, CHR 0xC9, CHR 0xCA, CHR 0xCB, CHR 0xCC, CHR 0xCD, CHR 0xCE, CHR 0xCF, CHR 0xD0, CHR 0xD1, CHR 0xD2, CHR 0xD3, CHR 0xD4, CHR 0xD5, CHR 0xD6, CHR 0xD8, CHR 0xD9, CHR 0xDA, CHR 0xDB, CHR 0xDC, CHR 0xDD, CHR 0xDE]"

definition toUpper :: "char \<Rightarrow> char" where
  "toUpper c = (case map_of (zip lower_letters upper_letters) c of None \<Rightarrow> c | Some u \<Rightarrow> u)"

definition toLower :: "char \<Rightarrow> char" where
  "toLower c = (case map_of (zip upper_letters lower_letters) c of None \<Rightarrow> c | Some l \<Rightarrow> l)"

definition canon :: "bool \<Rightarrow> char \<Rightarrow> char" where
  "canon ci c = (if ci then toUpper c else c)"

text \<open>\<^verbatim>\<open>s.toLowerCase()\<close> and \<^verbatim>\<open>s.trim()\<close>.\<close>

definition toLowerCase :: "string \<Rightarrow> string" where
  "toLowerCase s = map toLower s"

definition trim :: "string \<Rightarrow> string" where
  "trim s = rev (dropWhile is_space (rev (dropWhile is_space s)))"

text \<open>\<^verbatim>\<open>t.startsWith(k)\<close> and \<^verbatim>\<open>t.includes(k)\<close>.\<close>

fun startsWith :: "string \<Rightarrow> string \<Rightarrow> bool" where
  "startsWith t [] = True"
| "startsWith [] (k # ks) = False"
| "startsWith (x # xs) (k # ks) = (if x = k then startsWith xs ks else False)"

fun str_includes :: "string \<Rightarrow> string \<Rightarrow> bool" where
  "str_includes [] k = startsWith [] k"
| "str_includes (x # xs) k = (if startsWith (x # xs) k then True else str_includes xs k)"

text \<open>
  \<^verbatim>\<open>Number(s)\<close> for a string of decimal digits, and the decimal rendering of a natural
  number by a template literal. Both are exact; a JavaScript number agrees with them
  below \<open>2^53\<close>.
\<close>

definition digit_val :: "char \<Rightarrow> nat" where
  "digit_val c = (case map_of (zip ''0123456789'' [0, 1, 2, 3, 4, 5, 6, 7, 8, 9]) c of
                    None \<Rightarrow> 0 | Some d \<Rightarrow> d)"

definition Number_digits :: "string \<Rightarrow> nat" where
  "Number_digits s = foldl (\<lambda>n c. 10 * n + digit_val c) 0 s"

fun String_nat :: "nat \<Rightarrow> string" where
  "String_nat n = (if n < 10 then [''0123456789'' ! n]
                   else String_nat (n div 10) @ [''0123456789'' ! (n mod 10)])"

text \<open>\<^verbatim>\<open>parts.join(sep)\<close>.\<close>

fun join :: "string \<Rightarrow> string list \<Rightarrow> string" where
  "join sep [] = []"
| "join sep [x] = x"
| "join sep (x # y # ys) = x @ sep @ join sep (y # ys)"


section \<open>Regular expressions\<close>

text \<open>
  The patterns of the program are regular expressions of the host language. They are
  embedded as abstract syntax and run by a backtracking matcher that follows the
  language's matching rules: alternatives are tried from left to right, \<^verbatim>\<open>?\<close>, \<^verbatim>\<open>*\<close> and
  \<^verbatim>\<open>+\<close> are greedy, \<^verbatim>\<open>*?\<close> is lazy, an iteration of a starred expression that consumes
  nothing is rejected, and the first way to match that is found is the match.
\<close>

text \<open>The members of a bracketed class \<^verbatim>\<open>[...]\<close>: a character, or one of the escapes
  \<^verbatim>\<open>\w\<close>, \<^verbatim>\<open>\d\<close>, \<^verbatim>\<open>\s\<close>.\<close>

datatype citem = IChr char | IWord | IDigit | ISpace

fun in_item :: "bool \<Rightarrow> char \<Rightarrow> citem \<Rightarrow> bool" where
  "in_item ci y (IChr x) = (canon ci y = canon ci x)"
| "in_item ci y IWord = is_word y"
| "in_item ci y IDigit = is_digit y"
| "in_item ci y ISpace = is_space y"

definition cls_ok :: "bool \<Rightarrow> bool \<Rightarrow> citem list \<Rightarrow> char \<Rightarrow> bool" where
  "cls_ok ci neg items y = (list_ex (in_item ci y) items \<noteq> neg)"

text \<open>
  \<open>Lit s\<close> is the literal text \<open>s\<close>, \<open>Dot\<close> is \<^verbatim>\<open>.\<close>, \<open>Cls False items\<close> is
  \<^verbatim>\<open>[items]\<close> and \<open>Cls True items\<close> is \<^verbatim>\<open>[^items]\<close>, \<open>Cat\<close> is sequence, \<open>Alt\<close> is
  \<^verbatim>\<open>|\<close>, \<open>Opt\<close>, \<open>Star\<close> and \<open>LazyStar\<close> are \<^verbatim>\<open>?\<close>, \<^verbatim>\<open>*\<close> and \<^verbatim>\<open>*?\<close>, \<open>Cap i\<close> is the
  \<open>i\<close>-th capturing group, \<open>Bol\<close>, \<open>Eol\<close> and \<open>Wb\<close> are \<^verbatim>\<open>^\<close>, \<^verbatim>\<open>$\<close> and \<^verbatim>\<open>\b\<close>.
\<close>

datatype regex =
    Lit string
  | Dot
  | Cls bool "citem list"
  | Cat regex regex
  | Alt regex regex
  | Opt regex
  | Star regex
  | LazyStar regex
  | Cap nat regex
  | Bol
  | Eol
  | Wb

text \<open>
  A matcher state is the character before the current position (\<open>None\<close> at the start
  of the text), the text from the current position on, and the captures made so far,
  latest first.
\<close>

type_synonym caps = "(nat \<times> string) list"
type_synonym mstate = "char option \<times> string \<times> caps"

fun lit_prefix :: "bool \<Rightarrow> string \<Rightarrow> char option \<Rightarrow> string \<Rightarrow> (char option \<times> string) option" where
  "lit_prefix ci [] p a = Some (p, a)"
| "lit_prefix ci (x # xs) p [] = None"
| "lit_prefix ci (x # xs) p (y # ys) =
     (if canon ci y = canon ci x then lit_prefix ci xs (Some y) ys else None)"

definition word_before :: "char option \<Rightarrow> bool" where
  "word_before p = (case p of None \<Rightarrow> False | Some x \<Rightarrow> is_word x)"

definition word_after :: "string \<Rightarrow> bool" where
  "word_after a = (case a of [] \<Rightarrow> False | x # _ \<Rightarrow> is_word x)"

text \<open>
  \<open>rx_match ci r st\<close> lists the states in which a match of \<open>r\<close> that starts in \<open>st\<close>
  can end, in the order in which backtracking finds them; \<open>ci\<close> is the flag \<^verbatim>\<open>i\<close>.
\<close>

function (sequential) rx_match :: "bool \<Rightarrow> regex \<Rightarrow> mstate \<Rightarrow> mstate list" where
  "rx_match ci (Lit s) (p, a, c) = (case lit_prefix ci s p a of None \<Rightarrow> [] | Some (p', a') \<Rightarrow> [(p', a', c)])"
| "rx_match ci Dot (p, a, c) =
     (case a of [] \<Rightarrow> [] | y # ys \<Rightarrow> if is_line_terminator y then [] else [(Some y, ys, c)])"
| "rx_match ci (Cls neg items) (p, a, c) =
     (case a of [] \<Rightarrow> []
      | y # ys \<Rightarrow> if cls_ok ci neg items y then [(Some y, ys, c)] else [])"
| "rx_match ci (Cat r1 r2) st = concat (map (rx_match ci r2) (rx_match ci r1 st))"
| "rx_match ci (Alt r1 r2) st = rx_match ci r1 st @ rx_match ci r2 st"
| "rx_match ci (Opt r) (p, a, c) =
     filter (\<lambda>(p', a', c'). length a' < length a) (rx_match ci r (p, a, c)) @ [(p, a, c)]"
| "rx_match ci (Star r) (p, a, c) =
     concat (map (\<lambda>(p', a', c'). if length a' < length a then rx_match ci (Star r) (p', a', c') else [])
                 (rx_match ci r (p, a, c)))
     @ [(p, a, c)]"
| "rx_match ci (LazyStar r) (p, a, c) =
     (p, a, c) #
     concat (map (\<lambda>(p', a', c'). if length a' < length a then rx_match ci (LazyStar r) (p', a', c') else [])
                 (rx_match ci r (p, a, c)))"
| "rx_match ci (Cap i r) (p, a, c) =
     map (\<lambda>(p', a', c'). (p', a', (i, take (length a - length a') a) # c')) (rx_match ci r (p, a, c))"
| "rx_match ci Bol (p, a, c) = (if p = None then [(p, a, c)] else [])"
| "rx_match ci Eol (p, a, c) = (if a = [] then [(p, a, c)] else [])"
| "rx_match ci Wb (p, a, c) = (if word_before p \<noteq> word_after a then [(p, a, c)] else [])"
  by pat_completeness auto
termination
  by (relation "inv_image (less_than <*lex*> less_than)
        (\<lambda>(ci, r, p, a, c). (size r, length a))") auto

text \<open>\<^verbatim>\<open>r+\<close>, a sequence of several expressions, an alternative of several, an
  alternative of literal words, \<^verbatim>\<open>\s+\<close> and \<^verbatim>\<open>\s*\<close>.\<close>

definition Plus :: "regex \<Rightarrow> regex" where "Plus r = Cat r (Star r)"
definition seqs :: "regex list \<Rightarrow> regex" where "seqs rs = foldr Cat rs (Lit [])"
fun alts :: "regex list \<Rightarrow> regex" where
  "alts [] = Cls False []"
| "alts [r] = r"
| "alts (r # rs) = Alt r (alts rs)"
definition words :: "string list \<Rightarrow> regex" where "words ws = alts (map Lit ws)"
definition ws1 :: regex where "ws1 = Plus (Cls False [ISpace])"
definition ws0 :: regex where "ws0 = Star (Cls False [ISpace])"

text \<open>A match: the matched text, the captures, and the text after the match.\<close>

record rmatch =
  m_text :: string
  m_groups :: caps
  m_after :: string

text \<open>The leftmost match at or after the current position.\<close>

fun search_from :: "bool \<Rightarrow> regex \<Rightarrow> char option \<Rightarrow> string \<Rightarrow> rmatch option" where
  "search_from ci r p a =
     (case rx_match ci r (p, a, []) of
        (p', a', c') # _ \<Rightarrow>
          Some \<lparr> m_text = take (length a - length a') a, m_groups = c', m_after = a' \<rparr>
      | [] \<Rightarrow> (case a of [] \<Rightarrow> None | x # xs \<Rightarrow> search_from ci r (Some x) xs))"

text \<open>\<^verbatim>\<open>text.match(r)\<close> and \<^verbatim>\<open>r.test(text)\<close> for an expression without the flag
  \<^verbatim>\<open>g\<close>, and \<^verbatim>\<open>match[i]\<close>.\<close>

definition js_match :: "bool \<Rightarrow> regex \<Rightarrow> string \<Rightarrow> rmatch option" where
  "js_match ci r text = search_from ci r None text"

definition js_test :: "bool \<Rightarrow> regex \<Rightarrow> string \<Rightarrow> bool" where
  "js_test ci r text = (case js_match ci r text of None \<Rightarrow> False | Some mt \<Rightarrow> True)"

definition group :: "nat \<Rightarrow> rmatch \<Rightarrow> string option" where
  "group i mt = map_of (m_groups mt) i"

text \<open>
  The successive matches of an expression with the flag \<^verbatim>\<open>g\<close>, as
  \<^verbatim>\<open>text.match(r)\<close> and \<^verbatim>\<open>text.replace(r, rep)\<close> enumerate them: the search for the
  next match starts where the last one ended, one character further when it was empty.
  The counter is the number of characters still covered by the last match.
\<close>

fun scan :: "bool \<Rightarrow> regex \<Rightarrow> nat \<Rightarrow> char option \<Rightarrow> string \<Rightarrow> rmatch list" where
  "scan ci r (Suc k) p [] = []"
| "scan ci r (Suc k) p (x # xs) = scan ci r k (Some x) xs"
| "scan ci r 0 p a =
     (case rx_match ci r (p, a, []) of
        [] \<Rightarrow> (case a of [] \<Rightarrow> [] | x # xs \<Rightarrow> scan ci r 0 (Some x) xs)
      | (p', a', c') # _ \<Rightarrow>
          \<lparr> m_text = take (length a - length a') a, m_groups = c', m_after = a' \<rparr> #
          (case a of [] \<Rightarrow> [] | x # xs \<Rightarrow> scan ci r (length a - length a' - 1) (Some x) xs))"

definition match_all :: "bool \<Rightarrow> regex \<Rightarrow> string \<Rightarrow> string list" where
  "match_all ci r text = map m_text (scan ci r 0 None text)"

fun replace_scan :: "bool \<Rightarrow> regex \<Rightarrow> string \<Rightarrow> nat \<Rightarrow> char option \<Rightarrow> string \<Rightarrow> string" where
  "replace_scan ci r rep (Suc k) p [] = []"
| "replace_scan ci r rep (Suc k) p (x # xs) = replace_scan ci r rep k (Some x) xs"
| "replace_scan ci r rep 0 p a =
     (case rx_match ci r (p, a, []) of
        [] \<Rightarrow> (case a of [] \<Rightarrow> [] | x # xs \<Rightarrow> x # replace_scan ci r rep 0 (Some x) xs)
      | (p', a', c') # _ \<Rightarrow>
          rep @
          (case a of [] \<Rightarrow> []
           | x # xs \<Rightarrow>
               (if length a - length a' = 0 then [x] else []) @
               replace_scan ci r rep (length a - length a' - 1) (Some x) xs))"

definition replace_all :: "bool \<Rightarrow> regex \<Rightarrow> string \<Rightarrow> string \<Rightarrow> string" where
  "replace_all ci r rep text = replace_scan ci r rep 0 None text"

text \<open>\<^verbatim>\<open>text.replace(r, rep)\<close> for an expression without the flag \<^verbatim>\<open>g\<close>: the
  first match only.\<close>

fun replace_search :: "bool \<Rightarrow> regex \<Rightarrow> string \<Rightarrow> char option \<Rightarrow> string \<Rightarrow> string" where
  "replace_search ci r rep p a =
     (case rx_match ci r (p, a, []) of
        (p', a', c') # _ \<Rightarrow> rep @ a'
      | [] \<Rightarrow> (case a of [] \<Rightarrow> [] | x # xs \<Rightarrow> x # replace_search ci r rep (Some x) xs))"

definition replace_first :: "bool \<Rightarrow> regex \<Rightarrow> string \<Rightarrow> string \<Rightarrow> string" where
  "replace_first ci r rep text = replace_search ci r rep None text"


section \<open>The intent patterns of nlu.js\<close>

text \<open>
  The table \<^verbatim>\<open>this.intentPatterns\<close> of \<^verbatim>\<open>AdvancedNLUEngine\<close>, in the order of its keys.
  Every pattern carries the flag \<^verbatim>\<open>i\<close>. Shared pieces of the patterns are named once.
\<close>

definition sq :: char where "sq = CHR 0x27"
definition dq :: char where "dq = CHR 0x22"

text \<open>A pattern character beyond U+00FF (the check marks U+2713 and U+2714 of the
  fourth \<^verbatim>\<open>complete\<close> pattern): no character of a modelled text equals it.\<close>
definition outside_latin1 :: regex where "outside_latin1 = Cls False []"

definition digits1 :: regex where "digits1 = Plus (Cls False [IDigit])"
definition word1 :: regex where "word1 = Plus (Cls False [IWord])"
definition plural :: "string \<Rightarrow> regex" where "plural w = Cat (Lit w) (Opt (Lit ''s''))"
definition then_ws :: "string \<Rightarrow> regex" where "then_ws w = Cat (Lit w) ws1"

text \<open>The data of one intent. Only \<^verbatim>\<open>view\<close> has \<^verbatim>\<open>priority_filters\<close> and
  \<^verbatim>\<open>category_filters\<close>, only \<^verbatim>\<open>create\<close> has the two \<^verbatim>\<open>indicators\<close>.\<close>

record intent_data =
  patterns :: "regex list"
  priority_filters :: "regex list option"
  category_filters :: "regex option"
  priority_indicators :: "regex list option"
  category_indicators :: "regex option"

definition plain_intent :: "regex list \<Rightarrow> intent_data" where
  "plain_intent ps = \<lparr> patterns = ps, priority_filters = None, category_filters = None,
      priority_indicators = None, category_indicators = None \<rparr>"

datatype intent = View | Create | Delete | Complete | Incomplete | Update | Search | Stats | Clear

definition what_is_are :: regex where
  "what_is_are = seqs [Lit ''what'', alts [Lit [sq, CHR ''s''], seqs [ws1, Lit ''ar'', Opt (Lit ''e'')]]]"

definition view_patterns :: "regex list" where
  "view_patterns = [
     seqs [alts [Lit ''show'', Lit ''list'', Lit ''display'', Lit ''get'', Lit ''see'', Lit ''view'',
                 Lit ''check'', seqs [what_is_are, ws1, Opt (words [''my'', ''the''])]],
           ws1, Opt (then_ws ''me''), Opt (then_ws ''my''), Opt (then_ws ''all''), Opt (then_ws ''the''),
           alts [plural ''todo'', plural ''task'', plural ''item'', Lit ''list'', Lit ''things'']],
     seqs [what_is_are, ws1, Opt (then_ws ''on''), Opt (then_ws ''my''), Opt (then_ws ''todo''),
           Lit ''list''],
     seqs [Lit ''what'', ws1, Opt (then_ws ''do''), Opt (then_ws ''i''), Opt (then_ws ''have''),
           Opt (then_ws ''to''), Lit ''do''],
     seqs [Lit ''my'', ws1, alts [plural ''todo'', plural ''task'', Lit ''list'']],
     seqs [Lit ''give'', ws1, Lit ''me'', ws1, Opt (then_ws ''my''),
           alts [plural ''todo'', plural ''task'', Lit ''list'']]]"

definition view_data :: intent_data where
  "view_data = \<lparr> patterns = view_patterns,
     priority_filters = Some [
       words [''high'', ''urgent'', ''important'', ''critical'', ''asap'', ''priority'', ''top''],
       words [''medium'', ''normal'', ''regular'', ''standard''],
       words [''low'', ''minor'', ''small'', ''least'']],
     category_filters = Some (seqs [
       alts [Lit ''category'', Lit ''type'', Lit ''group'', Lit ''about'', Lit ''for'',
             seqs [Lit ''related'', ws1, Lit ''to''], Lit ''tagged''],
       ws1, Cap 1 word1]),
     priority_indicators = None, category_indicators = None \<rparr>"

definition must_phrase :: regex where
  "must_phrase = seqs [Lit ''i'', ws1,
     alts [seqs [Lit ''need'', ws1, Lit ''to''], seqs [Lit ''have'', ws1, Lit ''to''],
           seqs [Lit ''want'', ws1, Lit ''to''], Lit ''should'', Lit ''must'']]"

definition create_patterns :: "regex list" where
  "create_patterns = [
     seqs [words [''add'', ''create'', ''make'', ''new'', ''insert'', ''put''], ws1,
           Opt (then_ws ''a''), Opt (then_ws ''new''),
           words [''todo'', ''task'', ''item'', ''reminder'']],
     seqs [must_phrase, ws1, Cap 1 (Plus Dot)],
     seqs [Lit ''remind'', ws1, Lit ''me'', ws1, Lit ''to'', ws1, Cap 1 (Plus Dot)],
     seqs [words [''todo'', ''task''], Lit '':'', ws0, Cap 1 (Plus Dot)],
     seqs [Lit ''add'', ws1, Lit ''to'', ws1, Opt (then_ws ''my''), Lit ''list'', ws0,
           Opt (Cls False [IChr CHR '':'', IChr CHR ''-'']), ws0, Cap 1 (Plus Dot)]]"

definition create_data :: intent_data where
  "create_data = \<lparr> patterns = create_patterns,
     priority_filters = None, category_filters = None,
     priority_indicators = Some [
       words [''high'', ''urgent'', ''important'', ''critical'', ''asap'', ''priority'',
              ''immediately'', ''soon'', ''quickly''],
       words [''medium'', ''normal'', ''regular'', ''standard''],
       words [''low'', ''minor'', ''small'', ''least'', ''whenever'', ''eventually'', ''someday'']],
     category_indicators = Some (seqs [
       alts [Lit ''category'', Lit ''type'', Lit ''group'', Lit ''tag'', Lit ''about'', Lit ''for'',
             seqs [Lit ''related'', ws1, Lit ''to''], Lit ''under'', Lit ''in''],
       ws1, Cap 1 word1]) \<rparr>"

text \<open>The tail \<^verbatim>\<open>\s*#?(\d+)\<close> shared by the patterns that name one todo.\<close>
definition hash_number :: regex where
  "hash_number = seqs [ws0, Opt (Lit ''#''), Cap 1 digits1]"

definition delete_patterns :: "regex list" where
  "delete_patterns = [
     seqs [alts [Lit ''delete'', Lit ''remove'', Lit ''del'', Lit ''erase'',
                 seqs [Lit ''get'', ws1, Lit ''rid'', ws1, Lit ''of''], Lit ''eliminate''],
           ws1, Opt (words [''todo'', ''task'', ''item'']), hash_number],
     seqs [words [''delete'', ''remove'', ''del'', ''erase''], ws1,
           alts [plural ''todo'', plural ''task'', plural ''item''], ws0, Opt (Lit ''#''),
           Cap 1 (seqs [digits1,
             Star (seqs [ws0,
               Plus (Cls False [IChr CHR '','', IChr CHR ''&'', IChr CHR ''a'', IChr CHR ''n'',
                               IChr CHR ''d'', ISpace]),
               ws0, digits1])])],
     seqs [alts [Lit ''cancel'', seqs [Lit ''forget'', ws1, Lit ''about''], Lit ''nevermind''],
           ws1, Opt (words [''todo'', ''task'', ''item'']), hash_number]]"

definition item_word :: regex where
  "item_word = words [''todo'', ''task'', ''item'', ''number'']"

definition complete_patterns :: "regex list" where
  "complete_patterns = [
     seqs [alts [Lit ''complete'', Lit ''done'', Lit ''finish'', Lit ''finished'',
                 seqs [Lit ''mark'', ws1, Opt (then_ws ''as''),
                       words [''complete'', ''done'', ''finished'']]],
           ws1, Opt item_word, hash_number],
     seqs [alts [seqs [Lit ''i'', ws1, words [''completed'', ''finished'', ''did'']],
                 seqs [Lit ''check'', ws1, Lit ''off'']],
           ws1, Opt item_word, hash_number],
     seqs [item_word, hash_number, ws1, Opt (then_ws ''is''),
           words [''complete'', ''done'', ''finished'']],
     seqs [alts [outside_latin1, outside_latin1, Lit ''check''], ws1, Opt item_word, hash_number]]"

definition incomplete_patterns :: "regex list" where
  "incomplete_patterns = [
     seqs [alts [Lit ''incomplete'', Lit ''undone'', Lit ''unfinish'', Lit ''reopen'',
                 seqs [Lit ''mark'', ws1, Opt (then_ws ''as''),
                       words [''incomplete'', ''undone'', ''pending'']]],
           ws1, Opt item_word, hash_number],
     seqs [words [''uncheck'', ''uncomplete''], ws1, Opt item_word, hash_number]]"

definition update_patterns :: "regex list" where
  "update_patterns = [
     seqs [words [''update'', ''edit'', ''change'', ''modify'', ''alter''], ws1, Opt item_word,
           hash_number],
     seqs [Lit ''change'', ws1, Opt item_word, hash_number, ws1, Lit ''to'', ws1,
           Cap 2 (Plus Dot)]]"

definition about_word :: regex where
  "about_word = alts [Lit ''about'', Lit ''for'', Lit ''with'', Lit ''containing'',
                      seqs [Lit ''related'', ws1, Lit ''to'']]"

definition items_word :: regex where
  "items_word = alts [plural ''todo'', plural ''task'', plural ''item'']"

text \<open>The tail \<^verbatim>\<open>\s*['""]?([^'"]+)['""]?\<close> of the search patterns.\<close>
definition quoted_term :: regex where
  "quoted_term = seqs [ws0, Opt (Cls False [IChr sq, IChr dq, IChr dq]),
     Cap 1 (Plus (Cls True [IChr sq, IChr dq])), Opt (Cls False [IChr sq, IChr dq, IChr dq])]"

definition search_patterns :: "regex list" where
  "search_patterns = [
     seqs [alts [Lit ''search'', Lit ''find'', seqs [Lit ''look'', ws1, Lit ''for''], Lit ''locate''],
           ws1, Opt items_word, ws0, Opt about_word, quoted_term],
     seqs [Lit ''find'', ws1, Opt (then_ws ''me''), Opt (then_ws ''all''), items_word, ws1,
           about_word, quoted_term],
     seqs [Lit ''what'', ws1, items_word, ws1,
           Opt (seqs [Lit ''do'', ws1, Lit ''i'', ws1, Lit ''have'', ws1]), about_word,
           quoted_term]]"

definition stats_patterns :: "regex list" where
  "stats_patterns = [
     alts [Lit ''stats'', Lit ''statistics'', Lit ''summary'', Lit ''overview'', Lit ''report'',
           seqs [Lit ''how'', ws1, words [''many'', ''much'']], Lit ''count''],
     seqs [Lit ''what'', alts [Lit [sq, CHR ''s''], seqs [ws1, Lit ''is'']], ws1, Lit ''my'', ws1,
           words [''progress'', ''status'']],
     seqs [Lit ''show'', ws1, Lit ''me'', ws1, Opt (then_ws ''my''),
           words [''stats'', ''statistics'', ''summary'', ''progress'']]]"

definition clear_patterns :: "regex list" where
  "clear_patterns = [
     seqs [words [''clear'', ''clean'', ''remove'', ''delete''], ws1, Opt (then_ws ''all''),
           words [''completed'', ''done'', ''finished''], ws0, Opt items_word],
     seqs [alts [seqs [Lit ''clean'', ws1, Lit ''up''], seqs [Lit ''tidy'', ws1, Lit ''up'']],
           ws0, Opt (then_ws ''my''), alts [Lit ''list'', plural ''todo'', plural ''task'']]]"

definition intentPatterns :: "(intent \<times> intent_data) list" where
  "intentPatterns = [
     (View, view_data),
     (Create, create_data),
     (Delete, plain_intent delete_patterns),
     (Complete, plain_intent complete_patterns),
     (Incomplete, plain_intent incomplete_patterns),
     (Update, plain_intent update_patterns),
     (Search, plain_intent search_patterns),
     (Stats, plain_intent stats_patterns),
     (Clear, plain_intent clear_patterns)]"


section \<open>The NLU engine of nlu.js\<close>

text \<open>The tables \<^verbatim>\<open>contextKeywords.priorities\<close> and \<^verbatim>\<open>contextKeywords.categories\<close>.\<close>

definition priority_keywords :: "(string \<times> string list) list" where
  "priority_keywords = [
     (''high'', [''urgent'', ''important'', ''critical'', ''asap'', ''priority'', ''immediately'',
                 ''soon'', ''quickly'', ''deadline'']),
     (''medium'', [''medium'', ''normal'', ''regular'', ''standard'', ''default'']),
     (''low'', [''low'', ''minor'', ''small'', ''least'', ''whenever'', ''eventually'', ''someday'',
                ''later''])]"

definition category_keywords :: "(string \<times> string list) list" where
  "category_keywords = [
     (''work'', [''work'', ''job'', ''office'', ''business'', ''meeting'', ''project'', ''deadline'',
                 ''client'']),
     (''personal'', [''personal'', ''self'', ''me'', ''myself'', ''private'', ''home'']),
     (''shopping'', [''shopping'', ''buy'', ''purchase'', ''store'', ''market'', ''groceries'']),
     (''health'', [''health'', ''doctor'', ''medical'', ''appointment'', ''exercise'', ''fitness'',
                   ''gym'']),
     (''study'', [''study'', ''learn'', ''school'', ''education'', ''homework'', ''research'',
                  ''read'']),
     (''home'', [''home'', ''house'', ''clean'', ''organize'', ''fix'', ''repair'',
                 ''maintenance''])]"

text \<open>The nested loops \<^verbatim>\<open>for (const [name, keywords] of Object.entries(table))
  for (const keyword of keywords) if (text.includes(keyword)) return name;\<close>\<close>

fun keyword_hit :: "string \<Rightarrow> (string \<times> string list) list \<Rightarrow> string option" where
  "keyword_hit text [] = None"
| "keyword_hit text ((name, kws) # rest) =
     (if list_ex (str_includes text) kws then Some name else keyword_hit text rest)"

text \<open>
  \<^verbatim>\<open>
  extractNumbers(text) {
    const matches = text.match(/\b\d+\b/g);
    return matches ? matches.map(Number) : [];
  }
  \<close>
\<close>

definition number_regex :: regex where
  "number_regex = seqs [Wb, digits1, Wb]"

definition extractNumbers :: "string \<Rightarrow> nat list" where
  "extractNumbers text = map Number_digits (match_all False number_regex text)"

text \<open>
  \<^verbatim>\<open>
  extractPriority(text) {
    const contextWords = text.toLowerCase();
    for (const [priority, keywords] of Object.entries(this.contextKeywords.priorities))
      for (const keyword of keywords)
        if (contextWords.includes(keyword)) return priority;
    if (/(?:deadline|urgent|asap|immediately|now|quickly|soon)/i.test(text)) return 'high';
    if (/(?:eventually|someday|later|whenever|not\s+urgent)/i.test(text)) return 'low';
    return 'medium';
  }
  \<close>
\<close>

definition extractPriority :: "string \<Rightarrow> string" where
  "extractPriority text =
     (case keyword_hit (toLowerCase text) priority_keywords of
        Some p \<Rightarrow> p
      | None \<Rightarrow>
          if js_test True (words [''deadline'', ''urgent'', ''asap'', ''immediately'', ''now'',
                                  ''quickly'', ''soon'']) text then ''high''
          else if js_test True (alts [Lit ''eventually'', Lit ''someday'', Lit ''later'',
                                      Lit ''whenever'', seqs [Lit ''not'', ws1, Lit ''urgent'']]) text
          then ''low''
          else ''medium'')"

text \<open>
  \<^verbatim>\<open>
  extractCategory(text) {
    const lowerText = text.toLowerCase();
    const directMatch = text.match(/(?:category|tag|type|group|about|for|related\s+to)\s+(\w+)/i);
    if (directMatch) return directMatch[1];
    const hashtagMatch = text.match(/#(\w+)/);
    if (hashtagMatch) return hashtagMatch[1];
    for (const [category, keywords] of Object.entries(this.contextKeywords.categories))
      for (const keyword of keywords)
        if (lowerText.includes(keyword)) return category;
    return null;
  }
  \<close>
\<close>

definition extractCategory :: "string \<Rightarrow> string option" where
  "extractCategory text =
     (case js_match True (seqs [alts [Lit ''category'', Lit ''tag'', Lit ''type'', Lit ''group'',
                                      Lit ''about'', Lit ''for'', seqs [Lit ''related'', ws1, Lit ''to'']],
                                ws1, Cap 1 word1]) text of
        Some mt \<Rightarrow> group 1 mt
      | None \<Rightarrow>
          (case js_match False (seqs [Lit ''#'', Cap 1 word1]) text of
             Some mt \<Rightarrow> group 1 mt
           | None \<Rightarrow> keyword_hit (toLowerCase text) category_keywords))"

text \<open>
  \<^verbatim>\<open>
  extractTodoText(text) {
    let todoText = text;
    todoText = todoText.replace(/^(?:add|create|make|new|i\s+(?:need\s+to|have\s+to|want\s+to|should|must)|remind\s+me\s+to|todo:?)\s*/i, '');
    todoText = todoText.replace(/\s*(?:with\s+)?(?:high|medium|low|urgent|important)\s+priority\s*/gi, '');
    todoText = todoText.replace(/\s*(?:category|tag|type|group)\s+\w+\s*/gi, '');
    todoText = todoText.replace(/^\s*[\'\"]|[\'\"]?\s*$/g, '');
    return todoText.trim() || text.trim();
  }
  \<close>
  \<open>or_else s t\<close> is \<^verbatim>\<open>s || t\<close> on strings.
\<close>

definition or_else :: "string \<Rightarrow> string \<Rightarrow> string" where
  "or_else s t = (if s \<noteq> [] then s else t)"

definition extractTodoText :: "string \<Rightarrow> string" where
  "extractTodoText text =
     (let t1 = replace_first True
                 (seqs [Bol, alts [Lit ''add'', Lit ''create'', Lit ''make'', Lit ''new'', must_phrase,
                                   seqs [Lit ''remind'', ws1, Lit ''me'', ws1, Lit ''to''],
                                   seqs [Lit ''todo'', Opt (Lit '':'')]], ws0]) [] text;
          t2 = replace_all True
                 (seqs [ws0, Opt (then_ws ''with''),
                        words [''high'', ''medium'', ''low'', ''urgent'', ''important''], ws1,
                        Lit ''priority'', ws0]) [] t1;
          t3 = replace_all True
                 (seqs [ws0, words [''category'', ''tag'', ''type'', ''group''], ws1, word1, ws0]) [] t2;
          t4 = replace_all False
                 (Alt (seqs [Bol, ws0, Cls False [IChr sq, IChr dq]])
                      (seqs [Opt (Cls False [IChr sq, IChr dq]), ws0, Eol])) [] t3
      in or_else (trim t4) (trim text))"

text \<open>
  \<^verbatim>\<open>
  extractSearchTerms(text) {
    const searchMatch = text.match(/(?:search|find|look\s+for).*?(?:about|for|with|containing|related\s+to)?\s*['""]?([^'"]+)['""]?/i);
    return searchMatch ? searchMatch[1].trim() : null;
  }
  \<close>
\<close>

definition extractSearchTerms :: "string \<Rightarrow> string option" where
  "extractSearchTerms text =
     (case js_match True (seqs [alts [Lit ''search'', Lit ''find'', seqs [Lit ''look'', ws1, Lit ''for'']],
                                LazyStar Dot, Opt about_word, quoted_term]) text of
        None \<Rightarrow> None
      | Some mt \<Rightarrow> map_option trim (group 1 mt))"

text \<open>
  The object \<^verbatim>\<open>analysis\<close> built by \<^verbatim>\<open>analyzeIntent\<close>. Of its fields, the model keeps those
  that \<^verbatim>\<open>generateFunctionCall\<close> reads and the two texts; the flags of \<^verbatim>\<open>context\<close> and the
  list \<^verbatim>\<open>matches\<close> are written and never read. The confidence is an exact rational where
  the program computes with doubles.
\<close>

record entities =
  numbers :: "nat list"
  priorities :: string
  categories :: "string option"
  todoText :: "string option"
  searchTerms :: "string option"

record analysis =
  originalText :: string
  normalizedText :: string
  primaryIntent :: "intent option"
  confidence :: rat
  entities :: entities

text \<open>
  \<^verbatim>\<open>
  matchPatterns(text, patterns) {
    const matches = [];
    for (const pattern of patterns) {
      const match = text.match(pattern);
      if (match) matches.push({ pattern, match, captures: ..., index: ..., length: match[0].length });
    }
    return matches;
  }
  \<close>
\<close>

fun matchPatterns :: "string \<Rightarrow> regex list \<Rightarrow> rmatch list" where
  "matchPatterns text [] = []"
| "matchPatterns text (pattern # rest) =
     (case js_match True pattern text of
        None \<Rightarrow> matchPatterns text rest
      | Some mt \<Rightarrow> mt # matchPatterns text rest)"

definition match_length :: "rmatch \<Rightarrow> nat" where
  "match_length mt = length (m_text mt)"

text \<open>
  \<^verbatim>\<open>
  calculateConfidence(matches, intentData, text) {
    let confidence = 0;
    confidence += matches.length * 0.3;
    const avgMatchLength = matches.reduce((sum, m) => sum + m.length, 0) / matches.length;
    confidence += Math.min(avgMatchLength / text.length, 0.4);
    if (intentData.priority_filters) {
      for (const priority of Object.values(intentData.priority_filters)) {
        if (priority.test(text)) confidence += 0.1;
      }
    }
    return Math.min(confidence, 1.0);
  }
  \<close>
\<close>

definition calculateConfidence :: "rmatch list \<Rightarrow> intent_data \<Rightarrow> string \<Rightarrow> rat" where
  "calculateConfidence matches intentData text =
     (let c0 = 0 + of_nat (length matches) * (3 / 10);
          avgMatchLength = of_nat (foldl (\<lambda>sum mt. sum + match_length mt) 0 matches)
                           / of_nat (length matches);
          c1 = c0 + min (avgMatchLength / of_nat (length text)) (4 / 10);
          c2 = (case priority_filters intentData of
                  None \<Rightarrow> c1
                | Some filters \<Rightarrow>
                    foldl (\<lambda>c f. if js_test True f text then c + 1 / 10 else c) c1 filters)
      in min c2 1)"

text \<open>
  One round of the loop of \<^verbatim>\<open>analyzeIntent\<close>:
  \<^verbatim>\<open>
  for (const [intentType, intentData] of Object.entries(this.intentPatterns)) {
    const matches = this.matchPatterns(normalizedText, intentData.patterns);
    if (matches.length > 0) {
      const confidence = this.calculateConfidence(matches, intentData, normalizedText);
      if (confidence > analysis.confidence) {
        analysis.primaryIntent = intentType;
        analysis.confidence = confidence;
      }
    }
  }
  \<close>
\<close>

fun analyze_step :: "string \<Rightarrow> intent option \<times> rat \<Rightarrow> intent \<times> intent_data \<Rightarrow> intent option \<times> rat" where
  "analyze_step text (cur, conf) (intentType, intentData) =
     (let matches = matchPatterns text (patterns intentData) in
      if length matches > 0
      then (let c = calculateConfidence matches intentData text in
            if c > conf then (Some intentType, c) else (cur, conf))
      else (cur, conf))"

text \<open>
  \<^verbatim>\<open>
  switch (primaryIntent) {
    case 'create': analysis.entities.todoText = this.extractTodoText(originalText); break;
    case 'search': analysis.entities.searchTerms = this.extractSearchTerms(originalText); break;
    case 'update':
      const updateMatch = originalText.match(/(?:change|update|edit).*?to\s+(.+)/i);
      if (updateMatch) analysis.entities.todoText = updateMatch[1].trim();
      break;
  }
  \<close>
\<close>

definition extractIntentSpecificEntities :: "analysis \<Rightarrow> analysis" where
  "extractIntentSpecificEntities a =
     (case primaryIntent a of
        Some Create \<Rightarrow>
          a\<lparr> entities := (entities a)\<lparr> todoText := Some (extractTodoText (originalText a)) \<rparr> \<rparr>
      | Some Search \<Rightarrow>
          a\<lparr> entities := (entities a)\<lparr> searchTerms := extractSearchTerms (originalText a) \<rparr> \<rparr>
      | Some Update \<Rightarrow>
          (case js_match True (seqs [words [''change'', ''update'', ''edit''], LazyStar Dot,
                                     Lit ''to'', ws1, Cap 1 (Plus Dot)]) (originalText a) of
             None \<Rightarrow> a
           | Some mt \<Rightarrow> a\<lparr> entities := (entities a)\<lparr> todoText := map_option trim (group 1 mt) \<rparr> \<rparr>)
      | _ \<Rightarrow> a)"

text \<open>
  \<^verbatim>\<open>analyzeIntent(text)\<close>: the text is lower-cased and trimmed for the patterns; the
  entities \<^verbatim>\<open>numbers\<close>, \<^verbatim>\<open>priorities\<close> and \<^verbatim>\<open>categories\<close> are read from the text as
  it was given.
\<close>

definition analyzeIntent :: "string \<Rightarrow> analysis" where
  "analyzeIntent text =
     (let normalized = trim (toLowerCase text);
          (cur, conf) = foldl (analyze_step normalized) (None, 0) intentPatterns
      in extractIntentSpecificEntities
           \<lparr> originalText = text, normalizedText = normalized, primaryIntent = cur,
             confidence = conf,
             entities = \<lparr> numbers = extractNumbers text, priorities = extractPriority text,
                          categories = extractCategory text, todoText = None,
                          searchTerms = None \<rparr> \<rparr>)"

text \<open>
  \<^verbatim>\<open>generateFunctionCall(analysis)\<close> builds the call with template literals.
  \<open>quoted s\<close> is \<^verbatim>\<open>"${s}"\<close>.
\<close>

definition quoted :: "string \<Rightarrow> string" where
  "quoted s = [dq] @ s @ [dq]"

text \<open>A template slot \<^verbatim>\<open>${v}\<close> for a value that is a string or null.\<close>
definition slot :: "string option \<Rightarrow> string" where
  "slot v = (case v of None \<Rightarrow> ''null'' | Some s \<Rightarrow> s)"

text \<open>\<^verbatim>\<open>if (v)\<close> for a value that is a string or null.\<close>

definition present :: "string option \<Rightarrow> bool" where
  "present v = (case v of None \<Rightarrow> False | Some s \<Rightarrow> s \<noteq> [])"

text \<open>
  \<^verbatim>\<open>
  if (confidence < 0.3) return null;
  switch (primaryIntent) {
    case 'view':
      if (entities.priorities !== 'medium') return `getTodosByPriority("${entities.priorities}")`;
      else if (entities.categories) return `getTodosByCategory("${entities.categories}")`;
      return 'getAllTodos()';
    case 'create':
      const params = [`"${entities.todoText}"`];
      if (entities.priorities !== 'medium') params.push(`"${entities.priorities}"`);
      if (entities.categories) params.push(`"${entities.categories}"`);
      return `createTodo(${params.join(', ')})`;
    case 'delete':
      if (entities.numbers.length > 1) return `deleteTodosByIds([${entities.numbers.join(', ')}])`;
      else if (entities.numbers.length === 1) return `deleteTodoById(${entities.numbers[0]})`;
      break;
    case 'complete':
      if (entities.numbers.length > 0) return `markTodoCompleted(${entities.numbers[0]})`;
      break;
    case 'incomplete':
      if (entities.numbers.length > 0) return `markTodoIncomplete(${entities.numbers[0]})`;
      break;
    case 'update':
      if (entities.numbers.length > 0) {
        const params = [entities.numbers[0]];
        if (entities.todoText) params.push(`"${entities.todoText}"`);
        if (entities.priorities !== 'medium') params.push(`null, "${entities.priorities}"`);
        if (entities.categories) params.push(`null, null, "${entities.categories}"`);
        return `updateTodo(${params.join(', ')})`;
      }
      break;
    case 'search':
      if (entities.searchTerms) return `searchTodos("${entities.searchTerms}")`;
      break;
    case 'stats': return 'getTodoStats()';
    case 'clear': return 'clearCompleted()';
  }
  return null;
  \<close>
\<close>

definition generateFunctionCall :: "analysis \<Rightarrow> string option" where
  "generateFunctionCall a =
     (let e = entities a in
      if confidence a < 3 / 10 then None
      else (case primaryIntent a of
        Some View \<Rightarrow>
          if priorities e \<noteq> ''medium'' then
            Some (''getTodosByPriority('' @ quoted (priorities e) @ '')'')
          else if present (categories e) then
            Some (''getTodosByCategory('' @ quoted (slot (categories e)) @ '')'')
          else Some ''getAllTodos()''
      | Some Create \<Rightarrow>
          Some (''createTodo('' @
            join '', '' ([quoted (slot (todoText e))]
               @ (if priorities e \<noteq> ''medium'' then [quoted (priorities e)] else [])
               @ (if present (categories e) then [quoted (slot (categories e))] else []))
            @ '')'')
      | Some Delete \<Rightarrow>
          if length (numbers e) > 1 then
            Some (''deleteTodosByIds(['' @ join '', '' (map String_nat (numbers e)) @ ''])'')
          else if length (numbers e) = 1 then
            Some (''deleteTodoById('' @ String_nat (numbers e ! 0) @ '')'')
          else None
      | Some Complete \<Rightarrow>
          if length (numbers e) > 0 then
            Some (''markTodoCompleted('' @ String_nat (numbers e ! 0) @ '')'')
          else None
      | Some Incomplete \<Rightarrow>
          if length (numbers e) > 0 then
            Some (''markTodoIncomplete('' @ String_nat (numbers e ! 0) @ '')'')
          else None
      | Some Update \<Rightarrow>
          if length (numbers e) > 0 then
            Some (''updateTodo('' @
              join '', '' ([String_nat (numbers e ! 0)]
                 @ (if present (todoText e) then [quoted (slot (todoText e))] else [])
                 @ (if priorities e \<noteq> ''medium'' then [''null, '' @ quoted (priorities e)] else [])
                 @ (if present (categories e) then [''null, null, '' @ quoted (slot (categories e))] else []))
              @ '')'')
          else None
      | Some Search \<Rightarrow>
          if present (searchTerms e) then
            Some (''searchTodos('' @ quoted (slot (searchTerms e)) @ '')'')
          else None
      | Some Stats \<Rightarrow> Some ''getTodoStats()''
      | Some Clear \<Rightarrow> Some ''clearCompleted()''
      | None \<Rightarrow> None))"

section \<open>The record store of tools.js\<close>

text \<open>
  \<^verbatim>\<open>todosTable\<close> as the list of its rows. A column keeps the value that was written to it
  (the coercion of a value to the column's SQL type is the database's and is not
  modelled); timestamps are natural numbers, \<^verbatim>\<open>new Date()\<close> is the parameter \<open>now\<close>.
\<close>

record todo_row =
  row_id :: int
  todo :: js_value
  priority :: js_value
  category :: js_value
  completed :: bool
  completed_at :: "nat option"
  created_at :: nat
  updated_at :: nat

type_synonym db = "todo_row list"

text \<open>
  \<^verbatim>\<open>eq(todosTable.id, id)\<close>: the row's id equals the argument. The model compares with a
  number argument; an argument of another type selects no row.
\<close>

definition eq_id :: "js_value \<Rightarrow> todo_row \<Rightarrow> bool" where
  "eq_id v r = (v = VNum (of_int (row_id r)))"

text \<open>\<^verbatim>\<open>db.delete(todosTable).where(p)\<close>: the rows selected by \<open>p\<close> are removed;
  \<^verbatim>\<open>rowCount\<close> is their number.\<close>

definition db_delete_where :: "(todo_row \<Rightarrow> bool) \<Rightarrow> db \<Rightarrow> nat \<times> db" where
  "db_delete_where p d = (length (filter p d), filter (\<lambda>r. \<not> p r) d)"

text \<open>The object \<^verbatim>\<open>updates\<close> of \<^verbatim>\<open>updateTodo\<close>: \<^verbatim>\<open>updated_at\<close> is always present, the other
  three keys only when they were assigned.\<close>

record updates =
  u_updated_at :: nat
  u_todo :: "js_value option"
  u_priority :: "js_value option"
  u_category :: "js_value option"

definition apply_updates :: "updates \<Rightarrow> todo_row \<Rightarrow> todo_row" where
  "apply_updates u r =
     r\<lparr> updated_at := u_updated_at u,
        todo := (case u_todo u of None \<Rightarrow> todo r | Some v \<Rightarrow> v),
        priority := (case u_priority u of None \<Rightarrow> priority r | Some v \<Rightarrow> v),
        category := (case u_category u of None \<Rightarrow> category r | Some v \<Rightarrow> v) \<rparr>"

text \<open>\<^verbatim>\<open>db.update(todosTable).set(u).where(p)\<close>.\<close>

definition db_update_where :: "updates \<Rightarrow> (todo_row \<Rightarrow> bool) \<Rightarrow> db \<Rightarrow> nat \<times> db" where
  "db_update_where u p d =
     (length (filter p d), map (\<lambda>r. if p r then apply_updates u r else r) d)"

text \<open>
  \<^verbatim>\<open>
  async function deleteTodosByIds(ids) {
    if (!Array.isArray(ids) || ids.length === 0) return 0;
    const result = await db.delete(todosTable)
      .where(or(...ids.map(id => eq(todosTable.id, id))));
    return result.rowCount;
  }
  \<close>
\<close>

fun deleteTodosByIds :: "js_value \<Rightarrow> db \<Rightarrow> nat \<times> db" where
  "deleteTodosByIds (VList ids) d =
     (if length ids = 0 then (0, d)
      else db_delete_where (\<lambda>r. list_ex (\<lambda>i. eq_id i r) ids) d)"
| "deleteTodosByIds v d = (0, d)"

text \<open>
  \<^verbatim>\<open>
  async function updateTodo(id, newText = null, priority = null, category = null) {
    const updates = { updated_at: new Date() };
    if (newText) updates.todo = newText;
    if (priority) updates.priority = priority;
    if (category !== null) updates.category = category;
    const result = await db.update(todosTable).set(updates).where(eq(todosTable.id, id));
    return result.rowCount > 0;
  }
  \<close>
\<close>

definition updateTodo_updates :: "nat \<Rightarrow> js_value \<Rightarrow> js_value \<Rightarrow> js_value \<Rightarrow> updates" where
  "updateTodo_updates now newText prio cat =
     \<lparr> u_updated_at = now,
       u_todo = (if truthy newText then Some newText else None),
       u_priority = (if truthy prio then Some prio else None),
       u_category = (if cat \<noteq> VNull then Some cat else None) \<rparr>"

definition updateTodo ::
  "nat \<Rightarrow> js_value \<Rightarrow> js_value \<Rightarrow> js_value \<Rightarrow> js_value \<Rightarrow> db \<Rightarrow> bool \<times> db" where
  "updateTodo now i newText0 priority0 category0 d =
     (let newText = default_null newText0;
          prio = default_null priority0;
          cat = default_null category0;
          u = updateTodo_updates now newText prio cat;
          (rowCount, d') = db_update_where u (eq_id i) d
      in (rowCount > 0, d'))"


section \<open>The dispatcher\<close>












section \<open>Notions used in the statements\<close>

text \<open>
  The maximal runs of the characters that satisfy \<open>P\<close>, from left to right:
  \<open>maximal_runs is_digit\<close> gives the maximal runs of digits of a text,
  \<open>maximal_runs is_word\<close> its maximal runs of word characters (letters, digits and the
  underscore).
\<close>

fun runs_acc :: "(char \<Rightarrow> bool) \<Rightarrow> string \<Rightarrow> string \<Rightarrow> string list" where
  "runs_acc P cur [] = (if cur = [] then [] else [rev cur])"
| "runs_acc P cur (x # xs) =
     (if P x then runs_acc P (x # cur) xs
      else (if cur = [] then [] else [rev cur]) @ runs_acc P [] xs)"

definition maximal_runs :: "(char \<Rightarrow> bool) \<Rightarrow> string \<Rightarrow> string list" where
  "maximal_runs P s = runs_acc P [] s"

definition digit_words :: "string \<Rightarrow> string list" where
  "digit_words a = filter (list_all is_digit) (maximal_runs is_word a)"



subsection \<open>Sample data\<close>



definition sample_row :: todo_row where
  "sample_row = \<lparr> row_id = 1, todo = VStr ''buy milk'', priority = VStr ''medium'',
      category = VStr ''shopping'', completed = False, completed_at = None,
      created_at = 10, updated_at = 10 \<rparr>"


section \<open>Evaluation of the character maps\<close>

lemma toUpper_ascii_lower:
  "toUpper CHR ''a'' = CHR ''A''"
  "toUpper CHR ''b'' = CHR ''B''"
  "toUpper CHR ''c'' = CHR ''C''"
  "toUpper CHR ''d'' = CHR ''D''"
  "toUpper CHR ''e'' = CHR ''E''"
  "toUpper CHR ''f'' = CHR ''F''"
  "toUpper CHR ''g'' = CHR ''G''"
  "toUpper CHR ''h'' = CHR ''H''"
  "toUpper CHR ''i'' = CHR ''I''"
  "toUpper CHR ''j'' = CHR ''J''"
  "toUpper CHR ''k'' = CHR ''K''"
  "toUpper CHR ''l'' = CHR ''L''"
  "toUpper CHR ''m'' = CHR ''M''"
  "toUpper CHR ''n'' = CHR ''N''"
  "toUpper CHR ''o'' = CHR ''O''"
  "toUpper CHR ''p'' = CHR ''P''"
  "toUpper CHR ''q'' = CHR ''Q''"
  "toUpper CHR ''r'' = CHR ''R''"
  "toUpper CHR ''s'' = CHR ''S''"
  "toUpper CHR ''t'' = CHR ''T''"
  "toUpper CHR ''u'' = CHR ''U''"
  "toUpper CHR ''v'' = CHR ''V''"
  "toUpper CHR ''w'' = CHR ''W''"
  "toUpper CHR ''x'' = CHR ''X''"
  "toUpper CHR ''y'' = CHR ''Y''"
  "toUpper CHR ''z'' = CHR ''Z''"
  by (simp_all add: toUpper_def lower_letters_def upper_letters_def)

lemma toLower_ascii_upper:
  "toLower CHR ''A'' = CHR ''a''"
  "toLower CHR ''B'' = CHR ''b''"
  "toLower CHR ''C'' = CHR ''c''"
  "toLower CHR ''D'' = CHR ''d''"
  "toLower CHR ''E'' = CHR ''e''"
  "toLower CHR ''F'' = CHR ''f''"
  "toLower CHR ''G'' = CHR ''g''"
  "toLower CHR ''H'' = CHR ''h''"
  "toLower CHR ''I'' = CHR ''i''"
  "toLower CHR ''J'' = CHR ''j''"
  "toLower CHR ''K'' = CHR ''k''"
  "toLower CHR ''L'' = CHR ''l''"
  "toLower CHR ''M'' = CHR ''m''"
  "toLower CHR ''N'' = CHR ''n''"
  "toLower CHR ''O'' = CHR ''o''"
  "toLower CHR ''P'' = CHR ''p''"
  "toLower CHR ''Q'' = CHR ''q''"
  "toLower CHR ''R'' = CHR ''r''"
  "toLower CHR ''S'' = CHR ''s''"
  "toLower CHR ''T'' = CHR ''t''"
  "toLower CHR ''U'' = CHR ''u''"
  "toLower CHR ''V'' = CHR ''v''"
  "toLower CHR ''W'' = CHR ''w''"
  "toLower CHR ''X'' = CHR ''x''"
  "toLower CHR ''Y'' = CHR ''y''"
  "toLower CHR ''Z'' = CHR ''z''"
  by (simp_all add: toLower_def lower_letters_def upper_letters_def)


lemma toUpper_other: "c \<notin> set lower_letters \<Longrightarrow> toUpper c = c"
  by (simp add: toUpper_def map_of_eq_None_iff [THEN iffD2] lower_letters_def upper_letters_def)

lemma toLower_other: "c \<notin> set upper_letters \<Longrightarrow> toLower c = c"
  by (simp add: toLower_def map_of_eq_None_iff [THEN iffD2] lower_letters_def upper_letters_def)

lemmas char_eval = toUpper_ascii_lower toLower_ascii_upper toUpper_other toLower_other
  lower_letters_def upper_letters_def is_word_def is_digit_def is_space_def is_line_terminator_def



section \<open>Properties of the matcher\<close>









declare rx_match.simps [simp del]







lemma cls_ok_digit [simp]: "cls_ok ci False [IDigit] y = is_digit y"
  by (simp add: cls_ok_def)

lemma cls_ok_word [simp]: "cls_ok ci False [IWord] y = is_word y"
  by (simp add: cls_ok_def)

lemma cls_ok_space [simp]: "cls_ok ci False [ISpace] y = is_space y"
  by (simp add: cls_ok_def)













section \<open>The numbers of a text\<close>



lemma digit_words_Nil [simp]: "digit_words [] = []"
  by (simp add: digit_words_def maximal_runs_def)




subsection \<open>The scan for numbers\<close>

declare scan.simps [simp del]














section \<open>Rules for evaluating the model\<close>

text \<open>
  Closed statements are computed by rewriting with the defining equations of the model
  and of the list and option operations they use, and with nothing else.
\<close>

lemmas regex_defs = seqs_def words_def ws1_def ws0_def Plus_def digits1_def word1_def plural_def
  then_ws_def outside_latin1_def what_is_are_def must_phrase_def hash_number_def item_word_def
  about_word_def items_word_def quoted_term_def sq_def dq_def alts.simps foldr.simps list.map
  o_apply id_apply


lemmas engine_rules = rx_match.simps lit_prefix.simps search_from.simps in_item.simps scan.simps
  replace_scan.simps replace_search.simps js_match_def js_test_def match_all_def replace_all_def
  replace_first_def matchPatterns.simps number_regex_def canon_def cls_ok_def word_before_def word_after_def
  char_eval startsWith.simps str_includes.simps keyword_hit.simps toLowerCase_def trim_def
  group_def or_else_def

lemmas data_rules = list.case option.case prod.case list.map concat.simps append.simps
  filter.simps list_ex_Nil_iff list_ex_Cons_iff list.size list.set if_True if_False simp_thms
  char.inject rmatch.simps take_Cons' take_Nil list.inject list.distinct option.inject
  option.distinct map_option_case insert_iff empty_iff split_conv
  Suc_less_eq diff_Suc_Suc minus_nat.diff_0 not_less_zero zero_less_Suc nat.distinct nat.inject
  One_nat_def add_Suc_right add_0_right add_Suc add_0 less_nat_zero_code diff_Suc_1
  dropWhile.simps rev.simps foldl.simps triv_forall_equality fst_conv snd_conv Pair_inject
  map_of.simps fun_upd_apply

lemmas eval_rules = regex_defs engine_rules data_rules
lemmas eval_congs = if_weak_cong list.case_cong_weak option.case_cong_weak prod.case_cong_weak


section \<open>The three scenarios, evaluated\<close>

text \<open>
  The analysis of the three utterances of the scenarios, one pattern list at a time.
\<close>

subsection \<open>show me all my todos\<close>

lemma show_normalized: "trim (toLowerCase ''show me all my todos'') = ''show me all my todos''"
  by (simp only: eval_rules cong: eval_congs)

lemma show_view:
  "matchPatterns ''show me all my todos'' view_patterns =
     [\<lparr>m_text = ''my todos'', m_groups = [], m_after = []\<rparr>]"
  by (simp only: eval_rules view_patterns_def cong: eval_congs)

lemma show_create: "matchPatterns ''show me all my todos'' create_patterns = []"
  by (simp only: eval_rules create_patterns_def cong: eval_congs)

lemma show_delete: "matchPatterns ''show me all my todos'' delete_patterns = []"
  by (simp only: eval_rules delete_patterns_def cong: eval_congs)

lemma show_complete: "matchPatterns ''show me all my todos'' complete_patterns = []"
  by (simp only: eval_rules complete_patterns_def cong: eval_congs)

lemma show_incomplete: "matchPatterns ''show me all my todos'' incomplete_patterns = []"
  by (simp only: eval_rules incomplete_patterns_def cong: eval_congs)

lemma show_update: "matchPatterns ''show me all my todos'' update_patterns = []"
  by (simp only: eval_rules update_patterns_def cong: eval_congs)

lemma show_search: "matchPatterns ''show me all my todos'' search_patterns = []"
  by (simp only: eval_rules search_patterns_def cong: eval_congs)

lemma show_stats: "matchPatterns ''show me all my todos'' stats_patterns = []"
  by (simp only: eval_rules stats_patterns_def cong: eval_congs)

lemma show_clear: "matchPatterns ''show me all my todos'' clear_patterns = []"
  by (simp only: eval_rules clear_patterns_def cong: eval_congs)

lemma show_filters:
  "js_test True (words [''high'', ''urgent'', ''important'', ''critical'', ''asap'', ''priority'', ''top''])
     ''show me all my todos'' = False"
  "js_test True (words [''medium'', ''normal'', ''regular'', ''standard'']) ''show me all my todos'' = False"
  "js_test True (words [''low'', ''minor'', ''small'', ''least'']) ''show me all my todos'' = False"
  by (simp_all only: eval_rules cong: eval_congs)

lemma show_numbers: "extractNumbers ''show me all my todos'' = []"
  by (simp only: extractNumbers_def eval_rules cong: eval_congs)

lemma show_priority: "extractPriority ''show me all my todos'' = ''medium''"
  by (simp only: extractPriority_def priority_keywords_def eval_rules cong: eval_congs)

lemma show_category: "extractCategory ''show me all my todos'' = Some ''personal''"
  by (simp only: extractCategory_def category_keywords_def eval_rules cong: eval_congs)

lemmas show_facts = show_normalized show_view show_create show_delete show_complete
  show_incomplete show_update show_search show_stats show_clear show_filters show_numbers
  show_priority show_category

lemma show_analysis:
  "analyzeIntent ''show me all my todos'' =
     \<lparr> originalText = ''show me all my todos'', normalizedText = ''show me all my todos'',
       primaryIntent = Some View, confidence = 7 / 10,
       entities = \<lparr> numbers = [], priorities = ''medium'', categories = Some ''personal'',
                    todoText = None, searchTerms = None \<rparr> \<rparr>"
  by (simp add: analyzeIntent_def intentPatterns_def view_data_def create_data_def
        plain_intent_def calculateConfidence_def match_length_def
        extractIntentSpecificEntities_def Let_def show_facts)


subsection \<open>add a todo to buy milk with high priority\<close>

lemma add_normalized: "trim (toLowerCase ''add a todo to buy milk with high priority'') = ''add a todo to buy milk with high priority''"
  by (simp only: eval_rules cong: eval_congs)

lemma add_view:
  "matchPatterns ''add a todo to buy milk with high priority'' view_patterns = []"
  by (simp only: eval_rules view_patterns_def cong: eval_congs)

lemma add_create:
  "matchPatterns ''add a todo to buy milk with high priority'' create_patterns = [\<lparr>m_text = ''add a todo'', m_groups = [], m_after = '' to buy milk with high priority''\<rparr>]"
  by (simp only: eval_rules create_patterns_def cong: eval_congs)

lemma add_delete:
  "matchPatterns ''add a todo to buy milk with high priority'' delete_patterns = []"
  by (simp only: eval_rules delete_patterns_def cong: eval_congs)

lemma add_complete:
  "matchPatterns ''add a todo to buy milk with high priority'' complete_patterns = []"
  by (simp only: eval_rules complete_patterns_def cong: eval_congs)

lemma add_incomplete:
  "matchPatterns ''add a todo to buy milk with high priority'' incomplete_patterns = []"
  by (simp only: eval_rules incomplete_patterns_def cong: eval_congs)

lemma add_update:
  "matchPatterns ''add a todo to buy milk with high priority'' update_patterns = []"
  by (simp only: eval_rules update_patterns_def cong: eval_congs)

lemma add_search:
  "matchPatterns ''add a todo to buy milk with high priority'' search_patterns = []"
  by (simp only: eval_rules search_patterns_def cong: eval_congs)

lemma add_stats:
  "matchPatterns ''add a todo to buy milk with high priority'' stats_patterns = []"
  by (simp only: eval_rules stats_patterns_def cong: eval_congs)

lemma add_clear:
  "matchPatterns ''add a todo to buy milk with high priority'' clear_patterns = []"
  by (simp only: eval_rules clear_patterns_def cong: eval_congs)

lemma add_numbers: "extractNumbers ''add a todo to buy milk with high priority'' = []"
  by (simp only: extractNumbers_def eval_rules cong: eval_congs)

lemma add_priority: "extractPriority ''add a todo to buy milk with high priority'' = ''high''"
  by (simp only: extractPriority_def priority_keywords_def eval_rules cong: eval_congs)

lemma add_category: "extractCategory ''add a todo to buy milk with high priority'' = Some ''shopping''"
  by (simp only: extractCategory_def category_keywords_def eval_rules cong: eval_congs)

lemma add_todoText: "extractTodoText ''add a todo to buy milk with high priority'' = ''a todo to buy milk''"
  by (simp only: extractTodoText_def Let_def eval_rules cong: eval_congs)

lemmas add_facts = add_normalized add_view add_create add_delete add_complete add_incomplete add_update add_search add_stats add_clear add_numbers add_priority add_category add_todoText

lemma add_analysis:
  "analyzeIntent ''add a todo to buy milk with high priority'' =
     \<lparr> originalText = ''add a todo to buy milk with high priority'',
       normalizedText = ''add a todo to buy milk with high priority'',
       primaryIntent = Some Create, confidence = 223 / 410,
       entities = \<lparr> numbers = [], priorities = ''high'', categories = Some ''shopping'',
                    todoText = Some ''a todo to buy milk'', searchTerms = None \<rparr> \<rparr>"
  by (simp add: analyzeIntent_def intentPatterns_def view_data_def create_data_def
        plain_intent_def calculateConfidence_def match_length_def
        extractIntentSpecificEntities_def Let_def add_facts)

subsection \<open>delete todos 2, 3, 5\<close>

















lemma show_call:
  "generateFunctionCall (analyzeIntent ''show me all my todos'') =
     Some (''getTodosByCategory('' @ [dq] @ ''personal'' @ [dq] @ '')'')"
  by (simp add: show_analysis generateFunctionCall_def quoted_def slot_def present_def)

lemma add_call:
  "generateFunctionCall (analyzeIntent ''add a todo to buy milk with high priority'') =
     Some (''createTodo('' @ quoted ''a todo to buy milk'' @ '', '' @ quoted ''high'' @ '', ''
           @ quoted ''shopping'' @ '')'')"
  by (simp add: add_analysis generateFunctionCall_def quoted_def slot_def present_def)

declare String_nat.simps [simp del]



section \<open>Claims about the intent classifier\<close>

subsection \<open>Confidence\<close>









subsection \<open>Scenario 1: show me all my todos\<close>

text \<open>
  C4. On the text "show me all my todos" the classifier gives the intent View with
  confidence 0.7, above 0.3, and the category "personal": the keyword "me" of that
  category is a substring of the text. With a category present and the default priority,
  the synthesized call is \<^verbatim>\<open>getTodosByCategory("personal")\<close>, not \<^verbatim>\<open>getAllTodos()\<close>.
\<close>

theorem show_me_all_my_todos:
  "primaryIntent (analyzeIntent ''show me all my todos'') = Some View \<and>
   confidence (analyzeIntent ''show me all my todos'') = 7 / 10 \<and>
   3 / 10 < confidence (analyzeIntent ''show me all my todos'') \<and>
   priorities (entities (analyzeIntent ''show me all my todos'')) = ''medium'' \<and>
   categories (entities (analyzeIntent ''show me all my todos'')) = Some ''personal'' \<and>
   generateFunctionCall (analyzeIntent ''show me all my todos'') =
     Some (''getTodosByCategory('' @ quoted ''personal'' @ '')'') \<and>
   generateFunctionCall (analyzeIntent ''show me all my todos'') \<noteq> Some ''getAllTodos()''"
  by (simp add: show_call quoted_def) (simp add: show_analysis)

subsection \<open>Scenario 2: add a todo to buy milk with high priority\<close>

text \<open>
  C5, as stated, fails: the extracted payload is not "buy milk" and the synthesized call
  is not \<^verbatim>\<open>createTodo("buy milk", "high")\<close>.
\<close>

theorem add_a_todo_counterexample:
  "todoText (entities (analyzeIntent ''add a todo to buy milk with high priority''))
     \<noteq> Some ''buy milk'' \<and>
   generateFunctionCall (analyzeIntent ''add a todo to buy milk with high priority'')
     \<noteq> Some (''createTodo('' @ quoted ''buy milk'' @ '', '' @ quoted ''high'' @ '')'')"
  by (simp add: add_call quoted_def) (simp add: add_analysis)

text \<open>
  C5, amended. On the text "add a todo to buy milk with high priority" the classifier
  gives the intent Create with the priority "high" and the category "shopping" (the
  keyword "buy"), and the synthesized call is \<^verbatim>\<open>createTodo\<close> with three positional
  arguments: the extracted payload, "high" and "shopping".
\<close>

theorem add_a_todo_synthesis:
  "primaryIntent (analyzeIntent ''add a todo to buy milk with high priority'') = Some Create \<and>
   priorities (entities (analyzeIntent ''add a todo to buy milk with high priority'')) = ''high'' \<and>
   categories (entities (analyzeIntent ''add a todo to buy milk with high priority''))
     = Some ''shopping'' \<and>
   (\<exists>payload.
      todoText (entities (analyzeIntent ''add a todo to buy milk with high priority''))
        = Some payload \<and>
      generateFunctionCall (analyzeIntent ''add a todo to buy milk with high priority'') =
        Some (''createTodo('' @ quoted payload @ '', '' @ quoted ''high'' @ '', ''
              @ quoted ''shopping'' @ '')''))"
  by (simp add: add_call) (simp add: add_analysis)

subsection \<open>Deletion\<close>



subsection \<open>Numbers\<close>





section \<open>Properties of the record store operations\<close>

text \<open>
  C9. For every argument that is not a list, or is the empty list, \<^verbatim>\<open>deleteTodosByIds\<close>
  returns the count 0 and leaves the record store as it was.
\<close>

theorem deleteTodosByIds_guard:
  assumes "\<not> isArray ids \<or> ids = VList []"
  shows "deleteTodosByIds ids d = (0, d)"
  using assms by (cases ids) auto

theorem deleteTodosByIds_guard_witness:
  "deleteTodosByIds (VStr ''5'') [] = (0, []) \<and> deleteTodosByIds (VList []) [] = (0, [])"
  using deleteTodosByIds_guard [of "VStr ''5''" "[]"] deleteTodosByIds_guard [of "VList []" "[]"]
  by simp

lemma updateTodo_rows:
  "snd (updateTodo now i t p c d) =
     map (\<lambda>r. if eq_id i r
               then apply_updates
                      (updateTodo_updates now (default_null t) (default_null p) (default_null c)) r
               else r) d"
  by (simp add: updateTodo_def db_update_where_def Let_def)

lemma updateTodo_found:
  "fst (updateTodo now i t p c d) = list_ex (eq_id i) d"
  by (simp add: updateTodo_def db_update_where_def Let_def list_ex_iff filter_empty_conv)

text \<open>
  C10, as stated, fails in its last clause: the category is written whenever the argument
  is not null, so the empty string, which is not truthy, replaces the stored category.
\<close>

theorem updateTodo_category_counterexample:
  "\<not> truthy (VStr []) \<and>
   category (snd (updateTodo 20 (VNum 1) (VStr []) VNull (VStr []) [sample_row]) ! 0) = VStr [] \<and>
   category sample_row = VStr ''shopping''"
  by (simp add: updateTodo_rows sample_row_def eq_id_def apply_updates_def
        updateTodo_updates_def default_null_def)

text \<open>
  C10, amended. For every existing todo id, \<^verbatim>\<open>updateTodo\<close> with the empty string or null
  as the new text returns true and leaves the text of every row as it was; in the rows
  with that id it sets \<^verbatim>\<open>updated_at\<close>, writes the priority only when a truthy one was
  supplied and the category whenever a non-null one was supplied (the empty string too);
  all other columns and all other rows stay as they were.
\<close>

theorem updateTodo_empty_text:
  assumes "list_ex (eq_id i) d" and "newText = VStr [] \<or> newText = VNull"
  shows "fst (updateTodo now i newText p c d) = True \<and>
         length (snd (updateTodo now i newText p c d)) = length d \<and>
         (\<forall>k<length d.
            let r = d ! k; r' = snd (updateTodo now i newText p c d) ! k
            in todo r' = todo r \<and> row_id r' = row_id r \<and> completed r' = completed r
               \<and> completed_at r' = completed_at r \<and> created_at r' = created_at r
               \<and> (if eq_id i r
                   then updated_at r' = now
                      \<and> priority r' = (if truthy (default_null p) then default_null p else priority r)
                      \<and> category r' = (if default_null c \<noteq> VNull then default_null c else category r)
                   else r' = r))"
  using assms
  by (auto simp: updateTodo_found updateTodo_rows apply_updates_def updateTodo_updates_def
        default_null_def Let_def)

theorem updateTodo_empty_text_witness:
  "list_ex (eq_id (VNum 1)) [sample_row] \<and>
   fst (updateTodo 20 (VNum 1) (VStr []) VNull VNull [sample_row]) = True \<and>
   todo (snd (updateTodo 20 (VNum 1) (VStr []) VNull VNull [sample_row]) ! 0) = VStr ''buy milk'' \<and>
   updated_at (snd (updateTodo 20 (VNum 1) (VStr []) VNull VNull [sample_row]) ! 0) = 20"
  using updateTodo_empty_text [of "VNum 1" "[sample_row]" "VStr []" 20 VNull VNull]
  by (simp add: sample_row_def eq_id_def Let_def)


section \<open>Properties of the dispatcher\<close>







end
